theory Spec2Isabelle
  imports Main "HOL-Library.Sublist"
begin

section \<open>The notebook \<^verbatim>\<open>packaging/intro_to_packaging.ipynb\<close>\<close>

text \<open>
  The repository holds one file, a Jupyter notebook in the nbformat 4 JSON layout. The
  notebook is embedded here as the value it denotes: a list of cells, followed by the
  notebook metadata. Every JSON string is kept as the list of its UTF-8 bytes; the
  elements of a \<^verbatim>\<open>source\<close> or \<^verbatim>\<open>text\<close> array are kept apart, each with the line feed it
  ends in.
\<close>

subsection \<open>Data model\<close>

text \<open>
  An output of a code cell, by its \<^verbatim>\<open>output_type\<close>: text written to a named stream, rich
  display data and execution results (each a list of representations by MIME type), and an
  error with the name and value of the exception and its traceback.
\<close>

datatype cell_output =
    is_Stream: Stream (stream_name: string) (stream_text: "string list")
  | is_DisplayData: DisplayData (display_data: "(string \<times> string list) list")
  | is_ExecuteResult: ExecuteResult (result_count: "nat option")
                                    (result_data: "(string \<times> string list) list")
  | is_Error: Error (ename: string) (evalue: string) (traceback: "string list")

text \<open>
  A cell, by its \<^verbatim>\<open>cell_type\<close>: markdown, code or raw. Only a code cell has an execution
  count and outputs. \<open>slide_type\<close> is the one entry of the cell metadata,
  \<^verbatim>\<open>metadata.slideshow.slide_type\<close>.
\<close>

datatype cell =
    is_Markdown: Markdown (slide_type: string) (source: "string list")
  | is_Code: Code (execution_count: "nat option") (slide_type: string)
                  (outputs: "cell_output list") (source: "string list")
  | is_Raw: Raw (slide_type: string) (source: "string list")

text \<open>
  The notebook metadata. Both \<^verbatim>\<open>kernelspec\<close> and \<^verbatim>\<open>language_info\<close> have a field \<^verbatim>\<open>name\<close>
  in the file; they are \<open>kernel_name\<close> and \<open>language_name\<close> here.
\<close>

record kernelspec =
  display_name :: string
  language :: string
  kernel_name :: string

record language_info =
  codemirror_mode :: string
  file_extension :: string
  mimetype :: string
  language_name :: string

record notebook =
  nb_cells :: "cell list"
  nb_kernelspec :: kernelspec
  nb_language_info :: language_info
  nbformat :: nat
  nbformat_minor :: nat

subsection \<open>Characters outside printable ASCII\<close>

text \<open>
  The escape character of the terminal colour sequences in the transcripts, and the
  UTF-8 encodings of the six non-ASCII code points the notebook uses: the box-drawing
  characters U+251C, U+2514, U+2502 and U+2500 of the directory trees, the right single
  quotation mark U+2019 and the horizontal ellipsis U+2026 of the prose.
\<close>

definition ESC :: char where "ESC = CHR 0x1B"
definition tee :: string where "tee = [CHR 0xE2, CHR 0x94, CHR 0x9C]"
definition elbow :: string where "elbow = [CHR 0xE2, CHR 0x94, CHR 0x94]"
definition bar :: string where "bar = [CHR 0xE2, CHR 0x94, CHR 0x82]"
definition dash :: string where "dash = [CHR 0xE2, CHR 0x94, CHR 0x80]"
definition rsquo :: string where "rsquo = [CHR 0xE2, CHR 0x80, CHR 0x99]"
definition hellip :: string where "hellip = [CHR 0xE2, CHR 0x80, CHR 0xA6]"

subsection \<open>The cells, in file order\<close>

definition cell_00 :: cell where
  \<open>cell_00 =
   Markdown ''slide''
     [''# A quick introduction to creating packages in Python'']\<close>

definition cell_01 :: cell where
  \<open>cell_01 =
   Markdown ''subslide''
     [''## Why Are We Doing This?\<newline>'',
      ''\<newline>'',
      ''\<newline>'',
      ''One of the most powerful things about coding for the sciences is that it costs nothing to re-use code we'' @ rsquo @ ''ve written in the past, allowing us to build on past work rather than starting over every project or paper.\<newline>'',
      ''\<newline>'',
      ''However, one practice we see again and again is copying and pasting code from one project into another. Sometimes it will just be a function, other times (`MATLAB`, `NCL`) it'' @ rsquo @ ''s files.\<newline>'',
      ''\<newline>'',
      ''Assembling code in packages makes it really easy to re-use old code: all the scripts and functions end up in a central location and can be called and \<newline>'',
      ''imported from anywhere on the computer - just like the packages `numpy`, `xarray` or `matplotlib`.'']\<close>

definition cell_02 :: cell where
  \<open>cell_02 =
   Markdown ''subslide''
     [''## Setting Up\<newline>'',
      ''\<newline>'',
      ''In this tutorial, we'' @ rsquo @ ''ll walk through the creation of a simple package from some code that'' @ rsquo @ ''s just lying around. You can view and clone the demo package: https://github.com/ncar-hackathons/hello-cesm-package. \<newline>'']\<close>

definition cell_03 :: cell where
  \<open>cell_03 =
   Markdown ''subslide''
     [''### 1. The Basics\<newline>'',
      ''\<newline>'',
      ''The most basic directory structure for a Python package looks like this:\<newline>'',
      ''\<newline>'',
      ''```bash\<newline>'',
      ''project\<newline>'',
      ''|\<newline>'',
      tee @ dash @ dash @ '' LICENSE\<newline>'',
      tee @ dash @ dash @ '' README.md\<newline>'',
      tee @ dash @ dash @ '' my_package\<newline>'',
      bar @ ''   '' @ tee @ dash @ dash @ '' __init__.py\<newline>'',
      bar @ ''   '' @ elbow @ dash @ dash @ '' some_module.py\<newline>'',
      elbow @ dash @ dash @ '' setup.py\<newline>'',
      ''```'']\<close>

definition cell_04 :: cell where
  \<open>cell_04 =
   Markdown ''subslide''
     [''But at the moment, we've just got some flat files.\<newline>'',
      ''\<newline>'',
      ''\<newline>'',
      ''```bash\<newline>'',
      ''project\<newline>'',
      ''|\<newline>'',
      tee @ dash @ dash @ '' statistics.py\<newline>'',
      elbow @ dash @ dash @ '' climatologies.py\<newline>'',
      ''```'']\<close>

definition cell_05 :: cell where
  \<open>cell_05 =
   Markdown ''subslide''
     [''So, the first step is to move files around. First comes the hardest part: choosing a package name. I'' @ rsquo @ ''ll call mine `cesm_package`. Create a directory with that name, and move the python files in there.'']\<close>

definition cell_06 :: cell where
  \<open>cell_06 =
   Markdown ''fragment''
     [''```bash\<newline>'',
      ''project\<newline>'',
      elbow @ dash @ dash @ '' cesm_package\<newline>'',
      ''    '' @ tee @ dash @ dash @ '' climatologies.py\<newline>'',
      ''    '' @ elbow @ dash @ dash @ '' statistics.py\<newline>'',
      ''```'']\<close>

definition cell_07 :: cell where
  \<open>cell_07 =
   Markdown ''subslide''
     [''There is one more crucial file: `__init__.py` lets the Python interpreter know that there are importable modules in this directory. This is the script that gets run when you execute import measure. For more about what you can do with modules, you can see the [Python docs](https://docs.python.org/3/tutorial/modules.html). After adding `__init__.py`, the project directory should be\<newline>'',
      ''\<newline>'',
      ''\<newline>'',
      ''```bash\<newline>'',
      ''project\<newline>'',
      elbow @ dash @ dash @ '' cesm_package\<newline>'',
      ''    '' @ tee @ dash @ dash @ '' __init__.py\<newline>'',
      ''    '' @ tee @ dash @ dash @ '' climatologies.py\<newline>'',
      ''    '' @ elbow @ dash @ dash @ '' statistics.py\<newline>'',
      ''```'']\<close>

definition cell_08 :: cell where
  \<open>cell_08 =
   Markdown ''subslide''
     [''## `2. setup.py`\<newline>'',
      ''\<newline>'',
      ''At this point, the library can be imported if we'' @ rsquo @ ''re in the same directory, but it isn'' @ rsquo @ ''t a package. To let `setuptools` and `pip` know how to handle it, we need to add the `setup.py` file.\<newline>'',
      ''\<newline>'']\<close>

definition cell_09 :: cell where
  \<open>cell_09 =
   Markdown ''subslide''
     [''A very basic version of setup.py is:\<newline>'',
      ''```python\<newline>'',
      ''\<newline>'',
      ''"""The setup script."""\<newline>'',
      ''\<newline>'',
      ''from setuptools import setup\<newline>'',
      ''install_requires = ['xarray', 'numpy', 'matplotlib'] # Whatever third-party libraries are needed\<newline>'',
      ''setup(\<newline>'',
      ''    author='Alice Doe',\<newline>'',
      ''    author_email='alice@example.com',\<newline>'',
      ''    description='My CESM analysis package',\<newline>'',
      ''    install_requires=install_requires,\<newline>'',
      ''    license='MIT',\<newline>'',
      ''    long_description='CESM data analysis package'\<newline>'',
      ''    keywords='ocean modeling',\<newline>'',
      ''    name='cesm-package',\<newline>'',
      ''    packages=['cesm_package'],\<newline>'',
      ''    url='https://github.com/github-user-name/project-name',\<newline>'',
      ''    version='0.1',\<newline>'',
      ''    zip_safe=False,\<newline>'',
      '')\<newline>'',
      ''\<newline>'',
      ''```'']\<close>

definition cell_10 :: cell where
  \<open>cell_10 =
   Markdown ''subslide''
     [''After adding `setup.py` the project directory should be \<newline>'',
      ''\<newline>'',
      ''\<newline>'',
      ''```bash\<newline>'',
      ''project\<newline>'',
      tee @ dash @ dash @ '' cesm_package\<newline>'',
      bar @ ''   '' @ tee @ dash @ dash @ '' __init__.py\<newline>'',
      bar @ ''   '' @ tee @ dash @ dash @ '' climatologies.py\<newline>'',
      bar @ ''   '' @ elbow @ dash @ dash @ '' statistics.py\<newline>'',
      elbow @ dash @ dash @ '' setup.py\<newline>'',
      ''```'']\<close>

definition cell_11 :: cell where
  \<open>cell_11 =
   Markdown ''subslide''
     [''### 3. Installing?\<newline>'',
      ''\<newline>'',
      ''Technically, you can install the module by running `python setup.py install`, however during development, it'' @ rsquo @ ''s much more convenient to run the following command from the root directory of your project (directory in which`setup.py` is located in)\<newline>'',
      ''\<newline>'',
      ''```bash\<newline>'',
      ''python setup.py develop\<newline>'',
      ''```'']\<close>

definition cell_12 :: cell where
  \<open>cell_12 =
   Code (Some 15) ''fragment''
     [Stream ''stdout''
       [''LICENSE      README.md    '' @ [ESC] @ ''[34mcesm_package'' @ [ESC] @ ''[39;49m'' @ [ESC] @ ''[0m setup.py\<newline>'']]
     [''ls'']\<close>

definition cell_13 :: cell where
  \<open>cell_13 =
   Code (Some 21) ''subslide''
     [Stream ''stdout''
       [''running develop\<newline>'',
        ''running egg_info\<newline>'',
        ''writing cesm_package.egg-info/PKG-INFO\<newline>'',
        ''writing dependency_links to cesm_package.egg-info/dependency_links.txt\<newline>'',
        ''writing requirements to cesm_package.egg-info/requires.txt\<newline>'',
        ''writing top-level names to cesm_package.egg-info/top_level.txt\<newline>'',
        ''reading manifest file 'cesm_package.egg-info/SOURCES.txt'\<newline>'',
        ''reading manifest template 'MANIFEST.in'\<newline>'',
        ''writing manifest file 'cesm_package.egg-info/SOURCES.txt'\<newline>'',
        ''running build_ext\<newline>'',
        ''Creating /Users/abanihi/opt/miniconda3/envs/devel/lib/python3.6/site-packages/cesm-package.egg-link (link to .)\<newline>'',
        ''cesm-package 0.1 is already the active version in easy-install.pth\<newline>'',
        ''\<newline>'',
        ''Installed /Users/abanihi/devel/ncar-hacks/hello-cesm-package\<newline>'',
        ''Processing dependencies for cesm-package==0.1\<newline>'',
        ''Searching for matplotlib==3.1.0\<newline>'',
        ''Best match: matplotlib 3.1.0\<newline>'',
        ''Adding matplotlib 3.1.0 to easy-install.pth file\<newline>'',
        ''\<newline>'',
        ''Using /Users/abanihi/opt/miniconda3/envs/devel/lib/python3.6/site-packages\<newline>'',
        ''Searching for numpy==1.16.4\<newline>'',
        ''Best match: numpy 1.16.4\<newline>'',
        ''Adding numpy 1.16.4 to easy-install.pth file\<newline>'',
        ''Installing f2py script to /Users/abanihi/opt/miniconda3/envs/devel/bin\<newline>'',
        ''Installing f2py3 script to /Users/abanihi/opt/miniconda3/envs/devel/bin\<newline>'',
        ''Installing f2py3.6 script to /Users/abanihi/opt/miniconda3/envs/devel/bin\<newline>'',
        ''\<newline>'',
        ''Using /Users/abanihi/opt/miniconda3/envs/devel/lib/python3.6/site-packages\<newline>'',
        ''Searching for xarray==0.12.1\<newline>'',
        ''Best match: xarray 0.12.1\<newline>'',
        ''Adding xarray 0.12.1 to easy-install.pth file\<newline>'',
        ''\<newline>'',
        ''Using /Users/abanihi/opt/miniconda3/envs/devel/lib/python3.6/site-packages\<newline>'',
        ''Searching for python-dateutil==2.8.0\<newline>'',
        ''Best match: python-dateutil 2.8.0\<newline>'',
        ''Adding python-dateutil 2.8.0 to easy-install.pth file\<newline>'',
        ''\<newline>'',
        ''Using /Users/abanihi/opt/miniconda3/envs/devel/lib/python3.6/site-packages\<newline>'',
        ''Searching for cycler==0.10.0\<newline>'',
        ''Best match: cycler 0.10.0\<newline>'',
        ''Processing cycler-0.10.0-py3.6.egg\<newline>'',
        ''cycler 0.10.0 is already the active version in easy-install.pth\<newline>'',
        ''\<newline>'',
        ''Using /Users/abanihi/opt/miniconda3/envs/devel/lib/python3.6/site-packages/cycler-0.10.0-py3.6.egg\<newline>'',
        ''Searching for kiwisolver==1.1.0\<newline>'',
        ''Best match: kiwisolver 1.1.0\<newline>'',
        ''Adding kiwisolver 1.1.0 to easy-install.pth file\<newline>'',
        ''\<newline>'',
        ''Using /Users/abanihi/opt/miniconda3/envs/devel/lib/python3.6/site-packages\<newline>'',
        ''Searching for pyparsing==2.4.0\<newline>'',
        ''Best match: pyparsing 2.4.0\<newline>'',
        ''Adding pyparsing 2.4.0 to easy-install.pth file\<newline>'',
        ''\<newline>'',
        ''Using /Users/abanihi/opt/miniconda3/envs/devel/lib/python3.6/site-packages\<newline>'',
        ''Searching for pandas==0.24.2\<newline>'',
        ''Best match: pandas 0.24.2\<newline>'',
        ''Adding pandas 0.24.2 to easy-install.pth file\<newline>'',
        ''\<newline>'',
        ''Using /Users/abanihi/opt/miniconda3/envs/devel/lib/python3.6/site-packages\<newline>'',
        ''Searching for six==1.12.0\<newline>'',
        ''Best match: six 1.12.0\<newline>'',
        ''Adding six 1.12.0 to easy-install.pth file\<newline>'',
        ''\<newline>'',
        ''Using /Users/abanihi/opt/miniconda3/envs/devel/lib/python3.6/site-packages\<newline>'',
        ''Searching for setuptools==39.1.0\<newline>'',
        ''Best match: setuptools 39.1.0\<newline>'',
        ''Adding setuptools 39.1.0 to easy-install.pth file\<newline>'',
        ''Installing easy_install script to /Users/abanihi/opt/miniconda3/envs/devel/bin\<newline>'',
        ''\<newline>'',
        ''Using /Users/abanihi/opt/miniconda3/envs/devel/lib/python3.6/site-packages\<newline>'',
        ''Searching for pytz==2019.1\<newline>'',
        ''Best match: pytz 2019.1\<newline>'',
        ''Adding pytz 2019.1 to easy-install.pth file\<newline>'',
        ''\<newline>'',
        ''Using /Users/abanihi/opt/miniconda3/envs/devel/lib/python3.6/site-packages\<newline>'',
        ''Finished processing dependencies for cesm-package==0.1\<newline>'']]
     [''python setup.py develop'']\<close>

definition cell_14 :: cell where
  \<open>cell_14 =
   Markdown ''subslide''
     [''#### Using GIT/GitHub\<newline>'',
      ''\<newline>'',
      ''This is my preferred way of quickly sharing/storing/installing packages. Simply create a git repo of the project directory, and put it somewhere. Then, use pip to install it from that repo directly.\<newline>'',
      ''\<newline>'',
      ''\<newline>'',
      ''```bash \<newline>'',
      ''pip install git+https://github.com/ncar-hackathons/hello-cesm-package\<newline>'',
      ''```'']\<close>

definition cell_15 :: cell where
  \<open>cell_15 =
   Markdown ''subslide''
     [''An advantage of this is that you can also install to particular branches, tags, and commits. A common practice is add a tag for the version release `git tag v0.1`. Users of the library can then lock into that particular version,\<newline>'',
      ''\<newline>'',
      ''\<newline>'',
      ''```bash \<newline>'',
      ''pip install git+https://github.com/ncar-hackathons/hello-cesm-package@v0.1\<newline>'',
      ''```'']\<close>

definition cell_16 :: cell where
  \<open>cell_16 =
   Markdown ''subslide''
     [''### Documentation!\<newline>'',
      ''\<newline>'',
      ''We'' @ rsquo @ ''ve already begun the documentation by adding a short description, author/maintainer name, and version'' @ hellip @ '' but there'' @ rsquo @ ''s a lot more to add. At a minimum, a README file should be included, but so should a license dilw, changes between versions, and actual software documentation.\<newline>'']\<close>

definition cell_17 :: cell where
  \<open>cell_17 =
   Markdown ''subslide''
     [''### README\<newline>'',
      ''\<newline>'',
      ''A readme file summarizes the software. For Python packages, this can named README, README.rst, or README.md. The recommendation is to use [reST](http://docutils.sourceforge.net/rst.html), as this is the standard on PyPI\<newline>'']\<close>

definition cell_18 :: cell where
  \<open>cell_18 =
   Markdown ''subslide''
     [''\<newline>'',
      ''### LICENSE\<newline>'',
      ''\<newline>'',
      ''The typical thing is to put the license you choose in LICENSE.md. There are a few choices for licenses. If you'' @ rsquo @ ''re using github, you can add most standard open source licenses through the website.\<newline>'',
      ''\<newline>'',
      ''Check this web page for learning more about open source licenses: https://opensource.guide/legal/'']\<close>

definition cell_19 :: cell where
  \<open>cell_19 =
   Markdown ''fragment''
     [''#### CHANGES\<newline>'',
      ''\<newline>'',
      ''Changes between versions are usually tracked in `CHANGELOG.rst`. This is more of a concern if you'' @ rsquo @ ''re planning to distribute the software.\<newline>'']\<close>

definition cell_20 :: cell where
  \<open>cell_20 =
   Markdown ''subslide''
     [''### 5. OTHER THINGS TO THINK OF\<newline>'',
      ''\<newline>'',
      ''A good package should also include full documentation and testing. I won'' @ rsquo @ ''t cover this here, but unit tests can be performed with the `pytest` library: https://docs.pytest.org/en/latest/, with the tests stored in the directory tests. \<newline>'',
      ''\<newline>'',
      ''We can run tests with the following command:'']\<close>

definition cell_21 :: cell where
  \<open>cell_21 =
   Code (Some 20) ''fragment''
     [Stream ''stdout''
       [[ESC] @ ''[1m============================= test session starts =============================='' @ [ESC] @ ''[0m\<newline>'',
        ''platform darwin -- Python 3.6.7, pytest-3.9.1, py-1.8.0, pluggy-0.12.0 -- /Users/abanihi/opt/miniconda3/envs/devel/bin/python\<newline>'',
        ''cachedir: .pytest_cache\<newline>'',
        ''rootdir: /Users/abanihi/devel/ncar-hacks/hello-cesm-package, inifile:\<newline>'',
        ''plugins: icdiff-0.2, env-0.6.2, cov-2.7.1, print-0.1.2, cpp-1.1.0\<newline>'',
        ''collected 1 item                                                               '' @ [ESC] @ ''[0m\<newline>'',
        ''\<newline>'',
        ''tests/test_statistics.py::test_sample '' @ [ESC] @ ''[32mPASSED'' @ [ESC] @ ''[0m'' @ [ESC] @ ''[36m                             [100%]'' @ [ESC] @ ''[0m\<newline>'',
        ''\<newline>'',
        [ESC] @ ''[32m'' @ [ESC] @ ''[1m=========================== 1 passed in 0.01 seconds ==========================='' @ [ESC] @ ''[0m\<newline>'']]
     [''pytest tests -v'']\<close>

definition cell_22 :: cell where
  \<open>cell_22 =
   Markdown ''subslide''
     [''\<newline>'',
      ''Many people use Sphinx for documentation, and that can be stored in the docs directory.\<newline>'',
      ''\<newline>'',
      ''There'' @ rsquo @ ''s a further step required for distributing. If you want to include these files in the distribution file of your package, you'' @ rsquo @ ''ll need a \<newline>'',
      ''`MANIFEST.in` file.\<newline>'',
      ''\<newline>'',
      ''#### `MANIFEST.in`\<newline>'',
      ''\<newline>'',
      ''```\<newline>'',
      ''include *.py\<newline>'',
      ''recursive-include docs *.rst\<newline>'',
      ''```'']\<close>

definition cell_23 :: cell where
  \<open>cell_23 =
   Markdown ''subslide''
     [''\<newline>'',
      ''\<newline>'',
      ''## 6. Where To Go From Here?\<newline>'',
      ''\<newline>'',
      ''So, at this point, we'' @ rsquo @ ''ve got a pretty good project skeleton, and most of the basics are covered. Your package should look something like this:\<newline>'',
      ''\<newline>'',
      ''```bash\<newline>'',
      ''\<newline>'',
      ''project\<newline>'',
      tee @ dash @ dash @ '' CHANGELOG.rst\<newline>'',
      tee @ dash @ dash @ '' LICENSE\<newline>'',
      tee @ dash @ dash @ '' MANIFEST.in\<newline>'',
      tee @ dash @ dash @ '' README.md\<newline>'',
      tee @ dash @ dash @ '' cesm_package\<newline>'',
      bar @ ''   '' @ tee @ dash @ dash @ '' __init__.py\<newline>'',
      bar @ ''   '' @ tee @ dash @ dash @ '' climatologies.py\<newline>'',
      bar @ ''   '' @ elbow @ dash @ dash @ '' statistics.py\<newline>'',
      tee @ dash @ dash @ '' docs\<newline>'',
      bar @ ''   '' @ elbow @ dash @ dash @ '' overview.rst\<newline>'',
      tee @ dash @ dash @ '' setup.py\<newline>'',
      elbow @ dash @ dash @ '' tests\<newline>'',
      ''    '' @ elbow @ dash @ dash @ '' test_statistics.py\<newline>'',
      ''```'']\<close>

definition cell_24 :: cell where
  \<open>cell_24 =
   Markdown ''subslide''
     [''If you have software that covers all these points, then congratulations! You'' @ rsquo @ ''re well on your way to a well-maintained software package.'']\<close>

definition cell_25 :: cell where
  \<open>cell_25 =
   Markdown ''fragment''
     [''\<newline>'',
      ''## So Where Do I Actually Go?\<newline>'',
      ''\<newline>'',
      ''To get a detailed look at packaging, check out \<newline>'',
      ''\<newline>'',
      ''- [the official Python docs](https://docs.python.org/3/distributing/index.html); they'' @ rsquo @ ''re complete, accessible, and generally more up to date.\<newline>'',
      ''- [NCAR pop-tools project](https://github.com/NCAR/pop-tools) for reference'']\<close>

definition cells :: "cell list" where
  "cells =
    [cell_00, cell_01, cell_02, cell_03, cell_04, cell_05,
     cell_06, cell_07, cell_08, cell_09, cell_10, cell_11,
     cell_12, cell_13, cell_14, cell_15, cell_16, cell_17,
     cell_18, cell_19, cell_20, cell_21, cell_22, cell_23,
     cell_24, cell_25]"

definition intro_to_packaging :: notebook where
  "intro_to_packaging =
    \<lparr> nb_cells = cells,
      nb_kernelspec = \<lparr> display_name = ''Bash'', language = ''bash'', kernel_name = ''bash'' \<rparr>,
      nb_language_info = \<lparr> codemirror_mode = ''shell'', file_extension = ''.sh'',
                          mimetype = ''text/x-sh'', language_name = ''bash'' \<rparr>,
      nbformat = 4, nbformat_minor = 2 \<rparr>"

subsection \<open>The repository\<close>

text \<open>The files of the repository, by path: the notebook and nothing else.\<close>

definition repository_files :: "string list" where
  "repository_files = [''packaging/intro_to_packaging.ipynb'']"

section \<open>Reading the notebook\<close>

text \<open>
  The outputs of a cell (none for a cell that is not a code cell), the lines of an
  output, the transcript of a cell (the lines of all its outputs), the code cells of a
  notebook and the commands they run.
\<close>

fun cell_outputs :: "cell \<Rightarrow> cell_output list" where
  "cell_outputs (Markdown st src) = []"
| "cell_outputs (Code n st outs src) = outs"
| "cell_outputs (Raw st src) = []"

fun output_lines :: "cell_output \<Rightarrow> string list" where
  "output_lines (Stream n t) = t"
| "output_lines (DisplayData d) = concat (map snd d)"
| "output_lines (ExecuteResult n d) = concat (map snd d)"
| "output_lines (Error en ev tb) = tb"

definition transcript :: "cell \<Rightarrow> string list" where
  "transcript c = concat (map output_lines (cell_outputs c))"

definition code_cells :: "notebook \<Rightarrow> cell list" where
  "code_cells nb = filter is_Code (nb_cells nb)"

definition commands :: "notebook \<Rightarrow> string list list" where
  "commands nb = map source (code_cells nb)"

text \<open>A line without the line feed that ends it.\<close>

definition chomp :: "string \<Rightarrow> string" where
  "chomp l = (if l \<noteq> [] \<and> last l = CHR 0x0A then butlast l else l)"

text \<open>The words of a line: the maximal runs of characters other than space and line feed.\<close>

definition is_blank :: "char \<Rightarrow> bool" where
  "is_blank c = (c = CHR '' '' \<or> c = CHR 0x0A)"

fun words_acc :: "string \<Rightarrow> string \<Rightarrow> string list" where
  "words_acc w [] = (if w = [] then [] else [w])"
| "words_acc w (c # s) =
     (if is_blank c then (if w = [] then words_acc [] s else w # words_acc [] s)
      else words_acc (w @ [c]) s)"

definition words :: "string \<Rightarrow> string list" where
  "words l = words_acc [] l"

text \<open>The first word of a line, if it has one: of a command line, the program it runs.\<close>

definition first_word :: "string \<Rightarrow> string option" where
  "first_word l = (case words l of [] \<Rightarrow> None | w # ws \<Rightarrow> Some w)"

text \<open>
  Some line of \<open>ls\<close> has one of the \<open>markers\<close> as a contiguous substring.
\<close>

definition mentions :: "string list \<Rightarrow> string list \<Rightarrow> bool" where
  "mentions markers ls = list_ex (\<lambda>l. list_ex (\<lambda>m. sublist m l) markers) ls"

text \<open>
  The transcript recorded for a command: the output lines of the code cells whose source
  is exactly that command.
\<close>

definition transcript_of :: "notebook \<Rightarrow> string \<Rightarrow> string list" where
  "transcript_of nb cmd =
     concat (map transcript (filter (\<lambda>c. is_Code c \<and> source c = [cmd]) (nb_cells nb)))"

text \<open>
  Terminal colour sequences run from the escape character to the next \<open>m\<close>; the flag
  says whether the scan is inside one.
\<close>

fun strip_ansi :: "bool \<Rightarrow> string \<Rightarrow> string" where
  "strip_ansi esc [] = []"
| "strip_ansi esc (c # s) =
     (if esc then strip_ansi (c \<noteq> CHR ''m'') s
      else if c = ESC then strip_ansi True s
      else c # strip_ansi False s)"

definition plain :: "string list \<Rightarrow> string list" where
  "plain ls = map (strip_ansi False) ls"

text \<open>The text between the first pair of single quotes of a line.\<close>

definition quoted :: "string \<Rightarrow> string" where
  "quoted l = takeWhile (\<lambda>c. c \<noteq> CHR 0x27) (drop 1 (dropWhile (\<lambda>c. c \<noteq> CHR 0x27) l))"

text \<open>The last component of a slash-separated path.\<close>

definition basename :: "string \<Rightarrow> string" where
  "basename p = rev (takeWhile (\<lambda>c. c \<noteq> CHR ''/'') (rev p))"

subsection \<open>Fenced blocks of a markdown cell\<close>

text \<open>
  The lines inside the fenced blocks that the fence line \<open>opener\<close> opens; a block ends at
  the next line that starts with three backquotes.
\<close>

fun fenced :: "string \<Rightarrow> bool \<Rightarrow> string list \<Rightarrow> string list" where
  "fenced opener inside [] = []"
| "fenced opener inside (l # ls) =
     (if inside then (if prefix ''```'' l then fenced opener False ls
                      else l # fenced opener True ls)
      else fenced opener (chomp l = opener) ls)"

subsection \<open>Directory trees\<close>

text \<open>
  A line of a directory tree is some indentation units (a vertical bar and three spaces,
  or four spaces), a branch mark (a tee or an elbow, two dashes and a space) and the name
  of the entry. \<open>tree_entry\<close> gives the depth and the name, and \<open>None\<close> for any other
  line (the root line \<open>project\<close>, the fences, the prose).
\<close>

function tree_entry :: "string \<Rightarrow> (nat \<times> string) option" where
  "tree_entry s =
     (if prefix (bar @ ''   '') s then map_option (apfst Suc) (tree_entry (drop 6 s))
      else if prefix ''    '' s then map_option (apfst Suc) (tree_entry (drop 4 s))
      else if prefix (tee @ dash @ dash @ '' '') s \<or> prefix (elbow @ dash @ dash @ '' '') s
           then Some (0, drop 10 s)
      else None)"
  by pat_completeness auto
termination
  by (relation "measure length") (auto simp add: bar_def prefix_def)

text \<open>
  The paths of a tree, each a list of names from the root down: an entry at depth \<open>d\<close>
  hangs under the first \<open>d\<close> names of the path of the entry before it.
\<close>

fun tree_paths :: "string list \<Rightarrow> (nat \<times> string) list \<Rightarrow> string list list" where
  "tree_paths anc [] = []"
| "tree_paths anc ((d, n) # es) = (take d anc @ [n]) # tree_paths (take d anc @ [n]) es"

text \<open>
  A markdown cell shows a layout when one of its lines is the root line \<open>project\<close>; its
  layout is the paths of the tree lines of the cell; the layouts of a notebook are those
  of its cells, in file order.
\<close>

definition shows_layout :: "cell \<Rightarrow> bool" where
  "shows_layout c = (is_Markdown c \<and> ''project'' \<in> set (map chomp (source c)))"

definition layout_of :: "cell \<Rightarrow> string list list" where
  "layout_of c = tree_paths [] (List.map_filter (\<lambda>l. tree_entry (chomp l)) (source c))"

definition layouts :: "notebook \<Rightarrow> string list list list" where
  "layouts nb = map layout_of (filter shows_layout (nb_cells nb))"

text \<open>The layouts from the first one that holds the path \<open>p\<close> on.\<close>

definition introduced :: "string list \<Rightarrow> string list list list \<Rightarrow> string list list list" where
  "introduced p Ls = dropWhile (\<lambda>L. p \<notin> set L) Ls"

text \<open>The layouts the notebook shows once the package has its initializer file.\<close>

definition package_layouts :: "notebook \<Rightarrow> string list list list" where
  "package_layouts nb = introduced [''cesm_package'', ''__init__.py''] (layouts nb)"

text \<open>
  The glossary's package, on a layout: a directory that holds an initializer file and at
  least one module, a Python file other than the initializer.
\<close>

fun module_of :: "string \<Rightarrow> string list \<Rightarrow> bool" where
  "module_of pkg [d, m] = (d = pkg \<and> suffix ''.py'' m \<and> m \<noteq> ''__init__.py'')"
| "module_of pkg p = False"

definition is_package :: "string \<Rightarrow> string list list \<Rightarrow> bool" where
  "is_package pkg L = ([pkg, ''__init__.py''] \<in> set L \<and> list_ex (module_of pkg) L)"

text \<open>Every path of the first layout is a path of the second.\<close>

definition extends :: "string list list \<Rightarrow> string list list \<Rightarrow> bool" where
  "extends A B = list_all (\<lambda>p. p \<in> set B) A"




subsection \<open>Command transcripts\<close>

text \<open>The names an \<^verbatim>\<open>ls\<close> transcript lists, colour sequences removed.\<close>

definition ls_listing :: "notebook \<Rightarrow> string list" where
  "ls_listing nb = concat (map words (plain (transcript_of nb ''ls'')))"

text \<open>
  The files a \<^verbatim>\<open>setup.py develop\<close> transcript reports reading: the quoted path of each
  line that starts with \<open>reading\<close>.
\<close>

definition files_read :: "string list \<Rightarrow> string list" where
  "files_read t = map quoted (filter (prefix ''reading '') t)"

text \<open>
  A path is listed by a directory listing when the listing names the path or the
  directory the path starts in.
\<close>

definition listed :: "string list \<Rightarrow> string \<Rightarrow> bool" where
  "listed names p = (takeWhile (\<lambda>c. c \<noteq> CHR ''/'') p \<in> set names)"

text \<open>
  A verbose \<^verbatim>\<open>pytest\<close> transcript: the count line, the result lines (test identifier
  and verdict), the root directory, and the words of the closing summary between its
  rules of equals signs.
\<close>

definition pytest_collected :: "string list \<Rightarrow> string list list" where
  "pytest_collected t = map words (filter (prefix ''collected '') (plain t))"

fun result_of :: "string list \<Rightarrow> (string \<times> string) option" where
  "result_of (tid # verdict # ws) = Some (tid, verdict)"
| "result_of ws = None"

definition pytest_results :: "string list \<Rightarrow> (string \<times> string) list" where
  "pytest_results t = List.map_filter (\<lambda>l. result_of (words l)) (filter (sublist ''::'') (plain t))"

definition pytest_rootdir :: "string list \<Rightarrow> string list" where
  "pytest_rootdir t =
     map (\<lambda>l. takeWhile (\<lambda>c. c \<noteq> CHR '','') (drop (length ''rootdir: '') l))
         (filter (prefix ''rootdir: '') (plain t))"

fun pytest_summary :: "string list \<Rightarrow> string list" where
  "pytest_summary [] = []"
| "pytest_summary [l] =
     filter (\<lambda>w. \<not> list_all (\<lambda>c. c = CHR ''='') w) (words (strip_ansi False l))"
| "pytest_summary (l # ls) = pytest_summary ls"

text \<open>The file of a test identifier \<^verbatim>\<open>file::function\<close>.\<close>

definition test_file :: "string \<Rightarrow> string" where
  "test_file tid = takeWhile (\<lambda>c. c \<noteq> CHR '':'') tid"

text \<open>An output on the standard output stream.\<close>

fun on_stdout :: "cell_output \<Rightarrow> bool" where
  "on_stdout (Stream n t) = (n = ''stdout'')"
| "on_stdout other = False"

text \<open>Words that a transcript of a failed, retried or recovered command would carry.\<close>

definition failure_markers :: "string list" where
  "failure_markers =
     [''Error'', ''error'', ''ERROR'', ''FAIL'', ''fail'', ''Traceback'', ''Retry'', ''retry'']"

text \<open>Text that would define a Python function or class.\<close>

definition python_definition_markers :: "string list" where
  "python_definition_markers = [''def '', ''class '']"

text \<open>Text that would define a command in the shell: a function, an alias, a variable.\<close>

definition shell_definition_markers :: "string list" where
  "shell_definition_markers = [''function '', ''()'', ''alias '', ''='', ''{'']"

subsection \<open>The \<^verbatim>\<open>setup.py\<close> and \<^verbatim>\<open>MANIFEST.in\<close> snippets\<close>

definition setup_py :: "notebook \<Rightarrow> string list" where
  "setup_py nb = concat (map (\<lambda>c. fenced ''```python'' False (source c))
                             (filter is_Markdown (nb_cells nb)))"



text \<open>
  The lines of the script that pass the keyword \<open>key\<close>: the lines that, after their
  indentation, start with \<open>key=\<close>; and the quoted text of each.
\<close>

definition keyword_lines :: "string \<Rightarrow> string list \<Rightarrow> string list" where
  "keyword_lines key ls =
     filter (prefix (key @ ''='')) (map (dropWhile (\<lambda>c. c = CHR '' '')) ls)"

definition keyword_value :: "string \<Rightarrow> string list \<Rightarrow> string list" where
  "keyword_value key ls = map quoted (keyword_lines key ls)"


subsection \<open>The file names the notebook presents\<close>

















section \<open>The Python syntax of the \<^verbatim>\<open>setup.py\<close> snippet\<close>

text \<open>
  Whether the script the notebook shows is a Python program is a question about the
  Python language, not about the notebook. The fragment of Python's lexical analysis and
  grammar that the script is written in is small: names, string literals, comments,
  list displays, keyword arguments, one call, one assignment, one import. It is modelled
  here after the language reference, with the token names of Python's own tokenizer.
\<close>

subsection \<open>Tokens\<close>

datatype token =
    NAME string
  | is_STRING: STRING string
  | NEWLINE
  | LPAR | RPAR | LSQB | RSQB | COMMA | EQUAL
  | ERRORTOKEN char

definition python_keywords :: "string list" where
  "python_keywords =
     [''False'', ''None'', ''True'', ''and'', ''as'', ''assert'', ''async'', ''await'',
      ''break'', ''class'', ''continue'', ''def'', ''del'', ''elif'', ''else'', ''except'',
      ''finally'', ''for'', ''from'', ''global'', ''if'', ''import'', ''in'', ''is'',
      ''lambda'', ''nonlocal'', ''not'', ''or'', ''pass'', ''raise'', ''return'', ''try'',
      ''while'', ''with'', ''yield'']"

definition keyword_constants :: "string list" where
  "keyword_constants = [''False'', ''None'', ''True'']"

definition is_name_start :: "char \<Rightarrow> bool" where
  "is_name_start c = (c \<in> set ''abcdefghijklmnopqrstuvwxyzABCDEFGHIJKLMNOPQRSTUVWXYZ_'')"

definition is_name_char :: "char \<Rightarrow> bool" where
  "is_name_char c = (is_name_start c \<or> c \<in> set ''0123456789'')"

definition is_quote :: "char \<Rightarrow> bool" where
  "is_quote c = (c = CHR 0x27 \<or> c = CHR 0x22)"

text \<open>
  The text before the first occurrence of a separator and the text after it; \<open>None\<close>
  when the separator does not occur.
\<close>

fun split_at :: "string \<Rightarrow> string \<Rightarrow> (string \<times> string) option" where
  "split_at sep [] = None"
| "split_at sep (c # s) =
     (if prefix sep (c # s) then Some ([], drop (length sep) (c # s))
      else map_option (apfst ((#) c)) (split_at sep s))"

text \<open>
  The tokenizer, at a nesting depth of brackets. Inside brackets a line feed joins lines
  and gives no token; outside it ends the logical line. A comment runs to the end of its
  line. A string literal opens with a quote character: three of them open a literal that
  runs to the next three, one opens a literal that must close on its line. A character
  that starts no token, and the quote of a literal that never closes, is an error token,
  and the scan stops there. Indentation at depth zero, escapes in literals, numbers and
  operators other than \<open>=\<close> do not occur in the script and are not modelled.
\<close>

function tokenize :: "nat \<Rightarrow> string \<Rightarrow> token list" where
  "tokenize depth [] = []"
| "tokenize depth (c # s) =
     (if c = CHR '' '' then tokenize depth s
      else if c = CHR 0x0A then
        (if depth = 0 then NEWLINE # tokenize depth s else tokenize depth s)
      else if c = CHR ''#'' then tokenize depth (dropWhile (\<lambda>d. d \<noteq> CHR 0x0A) s)
      else if is_name_start c then
        NAME (c # takeWhile is_name_char s) # tokenize depth (dropWhile is_name_char s)
      else if is_quote c then
        (if prefix [c, c] s then
           (case split_at [c, c, c] (drop 2 s) of
              None \<Rightarrow> [ERRORTOKEN c]
            | Some (body, rest) \<Rightarrow> STRING body # tokenize depth rest)
         else if c \<in> set (takeWhile (\<lambda>d. d \<noteq> CHR 0x0A) s) then
           STRING (takeWhile (\<lambda>d. d \<noteq> c) s)
             # tokenize depth (drop 1 (dropWhile (\<lambda>d. d \<noteq> c) s))
         else [ERRORTOKEN c])
      else if c = CHR ''('' then LPAR # tokenize (Suc depth) s
      else if c = CHR '')'' then RPAR # tokenize (depth - 1) s
      else if c = CHR ''['' then LSQB # tokenize (Suc depth) s
      else if c = CHR '']'' then RSQB # tokenize (depth - 1) s
      else if c = CHR '','' then COMMA # tokenize depth s
      else if c = CHR ''='' then EQUAL # tokenize depth s
      else [ERRORTOKEN c])"
  by pat_completeness auto
termination
proof -
  have rest_shorter: "length r \<le> length s" if "split_at sep s = Some (b, r)"
    for sep s b r
    using that
  proof (induction s arbitrary: b)
    case Nil
    then show ?case by simp
  next
    case (Cons c s)
    show ?case
    proof (cases "prefix sep (c # s)")
      case True
      with Cons.prems show ?thesis by auto
    next
      case False
      with Cons.prems obtain b' where "split_at sep s = Some (b', r)"
        by (auto simp add: map_option_case split: option.splits)
      from Cons.IH [OF this] show ?thesis by simp
    qed
  qed
  have after_quote: "length (dropWhile P s) - Suc 0 < Suc (length s)"
    for P and s :: string
    using length_dropWhile_le [of P s] by arith
  show ?thesis
    by (relation "measure (\<lambda>(depth, s). length s)")
       (auto simp add: le_imp_less_Suc length_dropWhile_le after_quote dest: rest_shorter)
qed

subsection \<open>Grammar\<close>

text \<open>
  A syntax error carries the token the parser could not accept, or \<open>None\<close> at the end of
  the input. Each parsing function takes the tokens ahead and gives the tokens left.
\<close>

datatype py_error = SyntaxError "token option"

text \<open>Adjacent string literals are one literal.\<close>

fun strings :: "token list \<Rightarrow> token list" where
  "strings (STRING s # ts) = strings ts"
| "strings ts = ts"

text \<open>
  An element: an identifier (or one of the keywords that are constants) or a string
  literal.
\<close>

fun element :: "token list \<Rightarrow> py_error + token list" where
  "element [] = Inl (SyntaxError None)"
| "element (NAME n # ts) =
     (if n \<in> set python_keywords \<and> n \<notin> set keyword_constants
      then Inl (SyntaxError (Some (NAME n))) else Inr ts)"
| "element (STRING s # ts) = Inr (strings ts)"
| "element (t # ts) = Inl (SyntaxError (Some t))"

text \<open>Looking at the token ahead, without taking it.\<close>

fun next_token :: "token list \<Rightarrow> token option" where
  "next_token [] = None"
| "next_token (t # ts) = Some t"

definition starts_with :: "token \<Rightarrow> token list \<Rightarrow> bool" where
  "starts_with t ts = (next_token ts = Some t)"

text \<open>
  The elements of a list display after its opening bracket: empty, or elements separated
  by commas, with an optional trailing comma, up to the closing bracket.
\<close>

function list_items :: "token list \<Rightarrow> py_error + token list" where
  "list_items ts =
     (if starts_with RSQB ts then Inr (tl ts)
      else case element ts of
             Inl e \<Rightarrow> Inl e
           | Inr r \<Rightarrow>
               (if starts_with COMMA r then list_items (tl r)
                else if starts_with RSQB r then Inr (tl r)
                else Inl (SyntaxError (next_token r))))"
  by pat_completeness auto
termination
proof -
  have strings_shorter: "length (strings ts) \<le> length ts" for ts
    by (induction ts rule: strings.induct) auto
  have element_shorter: "length r < length ts" if "element ts = Inr r" for ts r
    using that strings_shorter
    by (induction ts rule: element.induct)
       (auto simp add: le_imp_less_Suc split: if_splits)
  show ?thesis
    by (relation "measure length")
       (auto simp del: element.simps dest!: element_shorter intro: less_imp_diff_less)
qed

text \<open>An atom: a list display or an element.\<close>

fun atom :: "token list \<Rightarrow> py_error + token list" where
  "atom (LSQB # ts) = list_items ts"
| "atom ts = element ts"

text \<open>An argument of a call: a keyword argument \<open>name = atom\<close>, or an atom.\<close>

fun argument :: "token list \<Rightarrow> py_error + token list" where
  "argument (NAME k # EQUAL # ts) =
     (if k \<in> set python_keywords then Inl (SyntaxError (Some (NAME k))) else atom ts)"
| "argument ts = atom ts"

text \<open>
  The arguments of a call after its opening parenthesis: empty, or arguments separated by
  commas, with an optional trailing comma, up to the closing parenthesis. After an
  argument nothing but a comma or the closing parenthesis is accepted.
\<close>

function arguments :: "token list \<Rightarrow> py_error + token list" where
  "arguments ts =
     (if starts_with RPAR ts then Inr (tl ts)
      else case argument ts of
             Inl e \<Rightarrow> Inl e
           | Inr r \<Rightarrow>
               (if starts_with COMMA r then arguments (tl r)
                else if starts_with RPAR r then Inr (tl r)
                else Inl (SyntaxError (next_token r))))"
  by pat_completeness auto
termination
proof -
  have strings_shorter: "length (strings ts) \<le> length ts" for ts
    by (induction ts rule: strings.induct) auto
  have element_shorter: "length r < length ts" if "element ts = Inr r" for ts r
    using that strings_shorter
    by (induction ts rule: element.induct)
       (auto simp add: le_imp_less_Suc split: if_splits)
  have list_items_shorter: "length r < length ts" if "list_items ts = Inr r" for ts r
    using that
  proof (induction ts arbitrary: r rule: list_items.induct)
    case (1 ts)
    show ?case
    proof (cases "starts_with RSQB ts")
      case True
      with "1.prems" have "r = tl ts" and "ts \<noteq> []"
        by (auto simp add: list_items.simps [of ts] starts_with_def)
      then show ?thesis by simp
    next
      case False
      with "1.prems" obtain e where e: "element ts = Inr e"
        by (cases "element ts") (auto simp add: list_items.simps [of ts])
      from element_shorter [OF e] have shorter: "length e < length ts" .
      show ?thesis
      proof (cases "starts_with COMMA e")
        case True
        with "1.prems" False e have "list_items (tl e) = Inr r"
          by (simp add: list_items.simps [of ts])
        from "1.IH" [OF False e True this] have "length r < length (tl e)" .
        with shorter show ?thesis by simp
      next
        case no_comma: False
        with "1.prems" False e have "r = tl e"
          by (auto simp add: list_items.simps [of ts] split: if_splits)
        with shorter show ?thesis by simp
      qed
    qed
  qed
  have atom_shorter: "length r < length ts" if "atom ts = Inr r" for ts r
  proof (cases "starts_with LSQB ts")
    case True
    then obtain ts' where "ts = LSQB # ts'"
      by (cases ts) (auto simp add: starts_with_def)
    with list_items_shorter [of ts' r] that show ?thesis
      by simp
  next
    case False
    then have "atom ts = element ts"
      by (cases ts rule: atom.cases) (auto simp add: starts_with_def)
    with element_shorter [of ts r] that show ?thesis
      by simp
  qed
  have argument_shorter: "length r < length ts" if "argument ts = Inr r" for ts r
    using that
  proof (induction ts rule: argument.induct)
    case (1 k ts)
    then have "atom ts = Inr r"
      by (simp split: if_splits)
    from atom_shorter [OF this] show ?case by simp
  qed (auto simp del: atom.simps dest!: atom_shorter)
  show ?thesis
    by (relation "measure length")
       (auto simp del: argument.simps dest!: argument_shorter intro: less_imp_diff_less)
qed

text \<open>A statement has to use up its logical line.\<close>

fun whole_line :: "py_error + token list \<Rightarrow> py_error + unit" where
  "whole_line (Inl e) = Inl e"
| "whole_line (Inr []) = Inr ()"
| "whole_line (Inr (t # ts)) = Inl (SyntaxError (Some t))"

text \<open>
  A statement, given the tokens of its logical line: nothing (a blank line), a call
  \<open>name(arguments)\<close>, an assignment \<open>name = atom\<close>, an import
  \<open>from module import name\<close>, or an atom by itself (the docstring).
\<close>

fun statement :: "token list \<Rightarrow> py_error + unit" where
  "statement [] = Inr ()"
| "statement (NAME f # LPAR # ts) =
     (if f \<in> set python_keywords then Inl (SyntaxError (Some (NAME f)))
      else whole_line (arguments ts))"
| "statement (NAME v # EQUAL # ts) =
     (if v \<in> set python_keywords then Inl (SyntaxError (Some (NAME v)))
      else whole_line (atom ts))"
| "statement (NAME f # NAME m # NAME i # ts) =
     (if f = ''from'' \<and> i = ''import'' \<and> m \<notin> set python_keywords
      then whole_line (element ts) else Inl (SyntaxError (Some (NAME m))))"
| "statement ts = whole_line (atom ts)"

text \<open>The logical lines of a token sequence: the tokens between its line ends.\<close>

fun logical_lines :: "token list \<Rightarrow> token list \<Rightarrow> token list list" where
  "logical_lines line [] = [line]"
| "logical_lines line (NEWLINE # ts) = line # logical_lines [] ts"
| "logical_lines line (t # ts) = logical_lines (line @ [t]) ts"

text \<open>The first error of a sequence of results.\<close>

fun first_error :: "(py_error + unit) list \<Rightarrow> py_error + unit" where
  "first_error [] = Inr ()"
| "first_error (Inl e # rs) = Inl e"
| "first_error (Inr u # rs) = first_error rs"

text \<open>
  Compiling a script, given as its lines: Python parses the whole file before it runs any
  of it, so a script with a syntax error performs none of its statements.
\<close>

definition compile_script :: "string list \<Rightarrow> py_error + unit" where
  "compile_script ls = first_error (map statement (logical_lines [] (tokenize 0 (concat ls))))"

text \<open>The lines of a script with a comma added at the end of the lines that pass \<open>key\<close>.\<close>

definition with_comma_after :: "string \<Rightarrow> string list \<Rightarrow> string list" where
  "with_comma_after key ls =
     map (\<lambda>l. if prefix (key @ ''='') (dropWhile (\<lambda>c. c = CHR '' '') l)
              then chomp l @ '',\<newline>'' else l) ls"

section \<open>Facts about the notebook\<close>

subsection \<open>What the readers compute on the notebook\<close>

text \<open>
  The values of the readers on the notebook, each computed once; the properties below are
  read off these values.
\<close>

lemma code_cells_eq: "code_cells intro_to_packaging = [cell_12, cell_13, cell_21]"
  by code_simp

lemma commands_eq:
  "commands intro_to_packaging =
     [[''ls''], [''python setup.py develop''], [''pytest tests -v'']]"
  by code_simp

lemma execution_counts_eq:
  "map execution_count (code_cells intro_to_packaging) = [Some 15, Some 21, Some 20]"
  by code_simp

lemma ls_listing_eq:
  "ls_listing intro_to_packaging = [''LICENSE'', ''README.md'', ''cesm_package'', ''setup.py'']"
  by code_simp

lemma files_read_eq:
  "files_read (transcript_of intro_to_packaging ''python setup.py develop'') =
     [''cesm_package.egg-info/SOURCES.txt'', ''MANIFEST.in'']"
  by code_simp

lemma develop_last_line:
  "last (transcript_of intro_to_packaging ''python setup.py develop'') =
     ''Finished processing dependencies for cesm-package==0.1\<newline>''"
  by code_simp

lemma develop_active_version:
  "''cesm-package 0.1 is already the active version in easy-install.pth\<newline>''
     \<in> set (transcript_of intro_to_packaging ''python setup.py develop'')"
  by code_simp

lemma pytest_collected_eq:
  "pytest_collected (transcript_of intro_to_packaging ''pytest tests -v'') =
     [[''collected'', ''1'', ''item'']]"
  by code_simp

lemma pytest_results_eq:
  "pytest_results (transcript_of intro_to_packaging ''pytest tests -v'') =
     [(''tests/test_statistics.py::test_sample'', ''PASSED'')]"
  by code_simp

lemma pytest_summary_eq:
  "pytest_summary (transcript_of intro_to_packaging ''pytest tests -v'') =
     [''1'', ''passed'', ''in'', ''0.01'', ''seconds'']"
  by code_simp

lemma pytest_rootdir_eq:
  "pytest_rootdir (transcript_of intro_to_packaging ''pytest tests -v'') =
     [''/Users/abanihi/devel/ncar-hacks/hello-cesm-package'']"
  by code_simp

lemma no_failure_markers:
  "list_all (\<lambda>c. \<not> mentions failure_markers (transcript c)) [cell_12, cell_13, cell_21]"
  by code_simp

lemma no_python_definitions:
  "list_all (\<lambda>c. \<not> mentions python_definition_markers (source c))
     (nb_cells intro_to_packaging)"
  by code_simp

lemma layouts_eq:
  "layouts intro_to_packaging =
     [[[''LICENSE''], [''README.md''], [''my_package''], [''my_package'', ''__init__.py''],
       [''my_package'', ''some_module.py''], [''setup.py'']],
      [[''statistics.py''], [''climatologies.py'']],
      [[''cesm_package''], [''cesm_package'', ''climatologies.py''],
       [''cesm_package'', ''statistics.py'']],
      [[''cesm_package''], [''cesm_package'', ''__init__.py''],
       [''cesm_package'', ''climatologies.py''], [''cesm_package'', ''statistics.py'']],
      [[''cesm_package''], [''cesm_package'', ''__init__.py''],
       [''cesm_package'', ''climatologies.py''], [''cesm_package'', ''statistics.py''],
       [''setup.py'']],
      [[''CHANGELOG.rst''], [''LICENSE''], [''MANIFEST.in''], [''README.md''],
       [''cesm_package''], [''cesm_package'', ''__init__.py''],
       [''cesm_package'', ''climatologies.py''], [''cesm_package'', ''statistics.py''],
       [''docs''], [''docs'', ''overview.rst''], [''setup.py''], [''tests''],
       [''tests'', ''test_statistics.py'']]]"
  by code_simp




lemma setup_py_eq:
  \<open>setup_py intro_to_packaging =
     [''\<newline>'',
      ''"""The setup script."""\<newline>'',
      ''\<newline>'',
      ''from setuptools import setup\<newline>'',
      ''install_requires = ['xarray', 'numpy', 'matplotlib'] # Whatever third-party libraries are needed\<newline>'',
      ''setup(\<newline>'',
      ''    author='Alice Doe',\<newline>'',
      ''    author_email='alice@example.com',\<newline>'',
      ''    description='My CESM analysis package',\<newline>'',
      ''    install_requires=install_requires,\<newline>'',
      ''    license='MIT',\<newline>'',
      ''    long_description='CESM data analysis package'\<newline>'',
      ''    keywords='ocean modeling',\<newline>'',
      ''    name='cesm-package',\<newline>'',
      ''    packages=['cesm_package'],\<newline>'',
      ''    url='https://github.com/github-user-name/project-name',\<newline>'',
      ''    version='0.1',\<newline>'',
      ''    zip_safe=False,\<newline>'',
      '')\<newline>'',
      ''\<newline>'']\<close>
  by code_simp

lemma setup_py_tokens:
  "tokenize 0 (concat (setup_py intro_to_packaging)) =
     [NEWLINE, STRING ''The setup script.'', NEWLINE, NEWLINE,
      NAME ''from'', NAME ''setuptools'', NAME ''import'', NAME ''setup'', NEWLINE,
      NAME ''install_requires'', EQUAL,
        LSQB, STRING ''xarray'', COMMA, STRING ''numpy'', COMMA, STRING ''matplotlib'', RSQB,
        NEWLINE,
      NAME ''setup'', LPAR,
        NAME ''author'', EQUAL, STRING ''Alice Doe'', COMMA,
        NAME ''author_email'', EQUAL, STRING ''alice@example.com'', COMMA,
        NAME ''description'', EQUAL, STRING ''My CESM analysis package'', COMMA,
        NAME ''install_requires'', EQUAL, NAME ''install_requires'', COMMA,
        NAME ''license'', EQUAL, STRING ''MIT'', COMMA,
        NAME ''long_description'', EQUAL, STRING ''CESM data analysis package'',
        NAME ''keywords'', EQUAL, STRING ''ocean modeling'', COMMA,
        NAME ''name'', EQUAL, STRING ''cesm-package'', COMMA,
        NAME ''packages'', EQUAL, LSQB, STRING ''cesm_package'', RSQB, COMMA,
        NAME ''url'', EQUAL, STRING ''https://github.com/github-user-name/project-name'',
          COMMA,
        NAME ''version'', EQUAL, STRING ''0.1'', COMMA,
        NAME ''zip_safe'', EQUAL, NAME ''False'', COMMA,
      RPAR, NEWLINE, NEWLINE]"
  unfolding setup_py_eq by code_simp

lemma repaired_setup_py_compiles:
  "compile_script (with_comma_after ''long_description'' (setup_py intro_to_packaging)) = Inr ()"
  unfolding setup_py_eq by code_simp

section \<open>The claims\<close>

text \<open>
  C1. Every cell of the notebook is a markdown cell, or a code cell of the bash kernel
  with a recorded transcript: its outputs are not empty, all of them are stream outputs,
  and they carry text. The kernel and the language of the notebook are bash, not Python.
  No cell has a Python function or class definition in its source, and no word of a
  command names a file of the repository, so no cell defines or runs code of the
  repository.
\<close>

theorem cells_are_prose_or_bash_transcripts:
  "list_all (\<lambda>c. is_Markdown c \<or>
                 is_Code c \<and> cell_outputs c \<noteq> [] \<and> list_all is_Stream (cell_outputs c)
                   \<and> transcript c \<noteq> [])
            (nb_cells intro_to_packaging)
   \<and> language (nb_kernelspec intro_to_packaging) = ''bash''
   \<and> language_name (nb_language_info intro_to_packaging) = ''bash''
   \<and> list_all (\<lambda>c. \<not> mentions python_definition_markers (source c))
               (nb_cells intro_to_packaging)
   \<and> list_all (\<lambda>w. w \<notin> set repository_files \<and> w \<notin> set (map basename repository_files))
               (concat (map words (concat (commands intro_to_packaging))))"
proof (intro conjI)
  show "list_all (\<lambda>c. is_Markdown c \<or>
                 is_Code c \<and> cell_outputs c \<noteq> [] \<and> list_all is_Stream (cell_outputs c)
                   \<and> transcript c \<noteq> [])
            (nb_cells intro_to_packaging)"
    by code_simp
  show "language (nb_kernelspec intro_to_packaging) = ''bash''"
    by (simp add: intro_to_packaging_def)
  show "language_name (nb_language_info intro_to_packaging) = ''bash''"
    by (simp add: intro_to_packaging_def)
  show "list_all (\<lambda>c. \<not> mentions python_definition_markers (source c))
               (nb_cells intro_to_packaging)"
    by (rule no_python_definitions)
  show "list_all (\<lambda>w. w \<notin> set repository_files \<and> w \<notin> set (map basename repository_files))
               (concat (map words (concat (commands intro_to_packaging))))"
    unfolding commands_eq by code_simp
qed

text \<open>
  C2. The \<^verbatim>\<open>setup.py\<close> script the notebook shows is not a Python program. In its token
  sequence the string literal of the \<^verbatim>\<open>long_description\<close> argument is followed at once by
  the name \<^verbatim>\<open>keywords\<close>, with no comma between them; compiling the script stops there with
  a syntax error, so none of the script runs; and the same script with that one comma
  added compiles.
\<close>

theorem setup_py_snippet_is_a_syntax_error:
  "sublist [NAME ''long_description'', EQUAL, STRING ''CESM data analysis package'',
            NAME ''keywords'', EQUAL]
           (tokenize 0 (concat (setup_py intro_to_packaging)))
   \<and> compile_script (setup_py intro_to_packaging) =
       Inl (SyntaxError (Some (NAME ''keywords'')))
   \<and> compile_script (with_comma_after ''long_description'' (setup_py intro_to_packaging)) =
       Inr ()"
proof (intro conjI)
  show "sublist [NAME ''long_description'', EQUAL, STRING ''CESM data analysis package'',
            NAME ''keywords'', EQUAL]
           (tokenize 0 (concat (setup_py intro_to_packaging)))"
    unfolding setup_py_tokens by code_simp
  show "compile_script (setup_py intro_to_packaging) =
       Inl (SyntaxError (Some (NAME ''keywords'')))"
    unfolding compile_script_def setup_py_tokens by code_simp
  show "compile_script (with_comma_after ''long_description'' (setup_py intro_to_packaging)) =
       Inr ()"
    by (rule repaired_setup_py_compiles)
qed

text \<open>
  C3. Every output of every code cell is text on the standard output stream, none is an
  error output, and no line of a transcript carries a word of failure or retry. The
  transcript of \<^verbatim>\<open>python setup.py develop\<close> ends with the line that reports the
  dependencies of \<^verbatim>\<open>cesm-package==0.1\<close> processed. The \<^verbatim>\<open>pytest\<close> transcript reports one
  item collected, one test result, which is \<^verbatim>\<open>PASSED\<close>, and the summary
  \<^verbatim>\<open>1 passed in 0.01 seconds\<close>.
\<close>

theorem transcripts_record_success:
  "list_all (\<lambda>c. list_all on_stdout (cell_outputs c)) (code_cells intro_to_packaging)
   \<and> list_all (\<lambda>c. \<not> mentions failure_markers (transcript c)) (code_cells intro_to_packaging)
   \<and> last (transcript_of intro_to_packaging ''python setup.py develop'') =
       ''Finished processing dependencies for cesm-package==0.1\<newline>''
   \<and> pytest_collected (transcript_of intro_to_packaging ''pytest tests -v'') =
       [[''collected'', ''1'', ''item'']]
   \<and> pytest_results (transcript_of intro_to_packaging ''pytest tests -v'') =
       [(''tests/test_statistics.py::test_sample'', ''PASSED'')]
   \<and> pytest_summary (transcript_of intro_to_packaging ''pytest tests -v'') =
       [''1'', ''passed'', ''in'', ''0.01'', ''seconds'']"
proof (intro conjI)
  show "list_all (\<lambda>c. list_all on_stdout (cell_outputs c)) (code_cells intro_to_packaging)"
    unfolding code_cells_eq by code_simp
  show "list_all (\<lambda>c. \<not> mentions failure_markers (transcript c))
          (code_cells intro_to_packaging)"
    unfolding code_cells_eq by (rule no_failure_markers)
qed (rule develop_last_line pytest_collected_eq pytest_results_eq pytest_summary_eq)+

text \<open>
  C4. The code cells run three commands and no other: \<^verbatim>\<open>ls\<close>,
  \<^verbatim>\<open>python setup.py develop\<close> and \<^verbatim>\<open>pytest tests -v\<close>. The programs they run are
  \<^verbatim>\<open>ls\<close>, \<^verbatim>\<open>python\<close> and \<^verbatim>\<open>pytest\<close>; none of them is a file of the repository, and no
  code cell defines a shell function, alias or variable, so the notebook defines nothing
  of what these commands do.
\<close>

theorem commands_are_three_external_tools:
  "commands intro_to_packaging =
     [[''ls''], [''python setup.py develop''], [''pytest tests -v'']]
   \<and> map first_word (concat (commands intro_to_packaging)) =
       [Some ''ls'', Some ''python'', Some ''pytest'']
   \<and> list_all (\<lambda>p. p \<notin> set repository_files \<and> p \<notin> set (map basename repository_files))
               [''ls'', ''python'', ''pytest'']
   \<and> list_all (\<lambda>c. \<not> mentions shell_definition_markers c) (commands intro_to_packaging)"
proof (intro conjI)
  show "commands intro_to_packaging =
     [[''ls''], [''python setup.py develop''], [''pytest tests -v'']]"
    by (rule commands_eq)
  show "map first_word (concat (commands intro_to_packaging)) =
       [Some ''ls'', Some ''python'', Some ''pytest'']"
    unfolding commands_eq by code_simp
  show "list_all (\<lambda>p. p \<notin> set repository_files \<and> p \<notin> set (map basename repository_files))
               [''ls'', ''python'', ''pytest'']"
    by code_simp
  show "list_all (\<lambda>c. \<not> mentions shell_definition_markers c) (commands intro_to_packaging)"
    unfolding commands_eq by code_simp
qed

text \<open>
  C5, as the notebook has it. The \<^verbatim>\<open>ls\<close> transcript lists \<^verbatim>\<open>LICENSE\<close>, \<^verbatim>\<open>README.md\<close>,
  \<^verbatim>\<open>cesm_package\<close> and \<^verbatim>\<open>setup.py\<close>. The transcript of \<^verbatim>\<open>python setup.py develop\<close> in the
  next cell reports reading \<^verbatim>\<open>cesm_package.egg-info/SOURCES.txt\<close> and \<^verbatim>\<open>MANIFEST.in\<close>.
  Not every file read is listed: \<^verbatim>\<open>MANIFEST.in\<close> is not. The execution counts of the three
  code cells are 15, 21 and 20: the listing was recorded six executions before the
  transcript that follows it.
\<close>

theorem develop_reads_a_file_ls_does_not_list:
  "ls_listing intro_to_packaging = [''LICENSE'', ''README.md'', ''cesm_package'', ''setup.py'']
   \<and> files_read (transcript_of intro_to_packaging ''python setup.py develop'') =
       [''cesm_package.egg-info/SOURCES.txt'', ''MANIFEST.in'']
   \<and> \<not> list_all (listed (ls_listing intro_to_packaging))
             (files_read (transcript_of intro_to_packaging ''python setup.py develop''))
   \<and> \<not> listed (ls_listing intro_to_packaging) ''MANIFEST.in''
   \<and> map execution_count (code_cells intro_to_packaging) = [Some 15, Some 21, Some 20]"
proof (intro conjI)
  show "\<not> list_all (listed (ls_listing intro_to_packaging))
             (files_read (transcript_of intro_to_packaging ''python setup.py develop''))"
    unfolding ls_listing_eq files_read_eq by code_simp
  show "\<not> listed (ls_listing intro_to_packaging) ''MANIFEST.in''"
    unfolding ls_listing_eq by code_simp
qed (rule ls_listing_eq files_read_eq execution_counts_eq)+

text \<open>
  C6. The one test of the \<^verbatim>\<open>pytest\<close> transcript is
  \<^verbatim>\<open>tests/test_statistics.py::test_sample\<close>. Its file is not a file of the repository, and
  no file of the repository has \<open>test\<close> in its path. The root directory of the test run
  is the directory \<^verbatim>\<open>hello-cesm-package\<close>, the demo package that the notebook points its
  reader to on GitHub. No cell of the notebook has a function definition in its source,
  so the notebook defines no test function.
\<close>

theorem the_test_shown_is_of_the_demo_package:
  "map (\<lambda>r. test_file (fst r))
       (pytest_results (transcript_of intro_to_packaging ''pytest tests -v'')) =
     [''tests/test_statistics.py'']
   \<and> ''tests/test_statistics.py'' \<notin> set repository_files
   \<and> filter (sublist ''test'') repository_files = []
   \<and> map basename (pytest_rootdir (transcript_of intro_to_packaging ''pytest tests -v'')) =
       [''hello-cesm-package'']
   \<and> list_ex (\<lambda>c. mentions [''https://github.com/ncar-hackathons/hello-cesm-package'']
                         (source c))
              (nb_cells intro_to_packaging)
   \<and> list_all (\<lambda>c. \<not> mentions python_definition_markers (source c))
               (nb_cells intro_to_packaging)"
proof (intro conjI)
  show "map (\<lambda>r. test_file (fst r))
       (pytest_results (transcript_of intro_to_packaging ''pytest tests -v'')) =
     [''tests/test_statistics.py'']"
    unfolding pytest_results_eq by code_simp
  show "''tests/test_statistics.py'' \<notin> set repository_files"
    by code_simp
  show "filter (sublist ''test'') repository_files = []"
    by code_simp
  show "map basename (pytest_rootdir (transcript_of intro_to_packaging ''pytest tests -v'')) =
       [''hello-cesm-package'']"
    unfolding pytest_rootdir_eq by code_simp
  show "list_ex (\<lambda>c. mentions [''https://github.com/ncar-hackathons/hello-cesm-package'']
                         (source c))
              (nb_cells intro_to_packaging)"
    by code_simp
  show "list_all (\<lambda>c. \<not> mentions python_definition_markers (source c))
               (nb_cells intro_to_packaging)"
    by (rule no_python_definitions)
qed

text \<open>
  C7. From the layout that first shows \<^verbatim>\<open>cesm_package/__init__.py\<close> on, the notebook shows
  three layouts. Each of them holds the package directory with its initializer and the
  modules \<^verbatim>\<open>climatologies.py\<close> and \<^verbatim>\<open>statistics.py\<close>, which makes \<^verbatim>\<open>cesm_package\<close> a
  package in the sense of the glossary. From the layout that first shows \<^verbatim>\<open>setup.py\<close> on
  there are two, and both hold \<^verbatim>\<open>setup.py\<close>. Each of the three layouts holds every path
  of the one before it.
\<close>

theorem package_layouts_hold_the_package_and_grow:
  "length (package_layouts intro_to_packaging) = 3
   \<and> list_all (\<lambda>L. [''cesm_package'', ''__init__.py''] \<in> set L
                  \<and> [''cesm_package'', ''climatologies.py''] \<in> set L
                  \<and> [''cesm_package'', ''statistics.py''] \<in> set L)
               (package_layouts intro_to_packaging)
   \<and> list_all (is_package ''cesm_package'') (package_layouts intro_to_packaging)
   \<and> length (introduced [''setup.py''] (package_layouts intro_to_packaging)) = 2
   \<and> list_all (\<lambda>L. [''setup.py''] \<in> set L)
               (introduced [''setup.py''] (package_layouts intro_to_packaging))
   \<and> successively extends (package_layouts intro_to_packaging)"
  unfolding package_layouts_def layouts_eq
proof (intro conjI)
  let ?Ls = "introduced [''cesm_package'', ''__init__.py'']
     [[[''LICENSE''], [''README.md''], [''my_package''], [''my_package'', ''__init__.py''],
       [''my_package'', ''some_module.py''], [''setup.py'']],
      [[''statistics.py''], [''climatologies.py'']],
      [[''cesm_package''], [''cesm_package'', ''climatologies.py''],
       [''cesm_package'', ''statistics.py'']],
      [[''cesm_package''], [''cesm_package'', ''__init__.py''],
       [''cesm_package'', ''climatologies.py''], [''cesm_package'', ''statistics.py'']],
      [[''cesm_package''], [''cesm_package'', ''__init__.py''],
       [''cesm_package'', ''climatologies.py''], [''cesm_package'', ''statistics.py''],
       [''setup.py'']],
      [[''CHANGELOG.rst''], [''LICENSE''], [''MANIFEST.in''], [''README.md''],
       [''cesm_package''], [''cesm_package'', ''__init__.py''],
       [''cesm_package'', ''climatologies.py''], [''cesm_package'', ''statistics.py''],
       [''docs''], [''docs'', ''overview.rst''], [''setup.py''], [''tests''],
       [''tests'', ''test_statistics.py'']]]"
  show "length ?Ls = 3"
    by code_simp
  show "list_all (\<lambda>L. [''cesm_package'', ''__init__.py''] \<in> set L
                  \<and> [''cesm_package'', ''climatologies.py''] \<in> set L
                  \<and> [''cesm_package'', ''statistics.py''] \<in> set L) ?Ls"
    by code_simp
  show "list_all (is_package ''cesm_package'') ?Ls"
    by code_simp
  show "length (introduced [''setup.py''] ?Ls) = 2"
    by code_simp
  show "list_all (\<lambda>L. [''setup.py''] \<in> set L) (introduced [''setup.py''] ?Ls)"
    by code_simp
  show "successively extends ?Ls"
    by code_simp
qed



text \<open>
  C9. The script passes \<^verbatim>\<open>name='cesm-package'\<close> and \<^verbatim>\<open>packages=['cesm_package']\<close>: the
  distribution name and the package name differ, and differ in the hyphen that stands for
  the underscore. The transcript of \<^verbatim>\<open>python setup.py develop\<close> reports the distribution
  under the hyphenated name, \<^verbatim>\<open>cesm-package 0.1 is already the active version in
  easy-install.pth\<close>, while the directory that \<^verbatim>\<open>ls\<close> lists and that every package layout
  shows is \<^verbatim>\<open>cesm_package\<close>, with the underscore.
\<close>

theorem distribution_and_package_names_differ:
  "keyword_value ''name'' (setup_py intro_to_packaging) = [''cesm-package'']
   \<and> keyword_value ''packages'' (setup_py intro_to_packaging) = [''cesm_package'']
   \<and> keyword_value ''name'' (setup_py intro_to_packaging)
       \<noteq> keyword_value ''packages'' (setup_py intro_to_packaging)
   \<and> map (map (\<lambda>c. if c = CHR ''-'' then CHR ''_'' else c))
          (keyword_value ''name'' (setup_py intro_to_packaging))
       = keyword_value ''packages'' (setup_py intro_to_packaging)
   \<and> ''cesm-package 0.1 is already the active version in easy-install.pth\<newline>''
       \<in> set (transcript_of intro_to_packaging ''python setup.py develop'')
   \<and> ''cesm_package'' \<in> set (ls_listing intro_to_packaging)
   \<and> ''cesm-package'' \<notin> set (ls_listing intro_to_packaging)
   \<and> list_all (\<lambda>L. [''cesm_package''] \<in> set L \<and> [''cesm-package''] \<notin> set L)
               (package_layouts intro_to_packaging)"
proof -
  have name: "keyword_value ''name'' (setup_py intro_to_packaging) = [''cesm-package'']"
    unfolding setup_py_eq by code_simp
  have packages: "keyword_value ''packages'' (setup_py intro_to_packaging) = [''cesm_package'']"
    unfolding setup_py_eq by code_simp
  have differ: "[''cesm-package''] \<noteq> [''cesm_package'']"
    by simp
  have hyphen: "map (map (\<lambda>c. if c = CHR ''-'' then CHR ''_'' else c)) [''cesm-package'']
      = [''cesm_package'']"
    by simp
  have listing: "''cesm_package'' \<in> set (ls_listing intro_to_packaging)"
      "''cesm-package'' \<notin> set (ls_listing intro_to_packaging)"
    unfolding ls_listing_eq by simp_all
  have shown: "list_all (\<lambda>L. [''cesm_package''] \<in> set L \<and> [''cesm-package''] \<notin> set L)
               (package_layouts intro_to_packaging)"
    unfolding package_layouts_def layouts_eq by code_simp
  from differ hyphen listing shown develop_active_version show ?thesis
    unfolding name packages by (intro conjI) simp_all
qed

end
